theory Spec2Isabelle
  imports Main "HOL-Library.Sublist" "HOL-Library.Multiset" "HOL-Library.Char_ord" "HOL-Library.List_Lexorder"
begin

section \<open>Exceptions, external calls and the test run\<close>

text \<open>
  The suite is glue code around external collaborators (the Heketi, OpenShift and Gluster
  helper libraries). Every exception the Python code can raise is a value of \<open>error\<close>;
  a test operation returns \<open>Inl e\<close> when it raises \<open>e\<close>. The message is kept for
  \<open>ExecutionError\<close>; the texts of the other exceptions, of assertion and skip messages,
  and all calls of the logger are left out.
\<close>

datatype error =
    AssertionError
  | SkipTest
  | ExecutionError string
  | ConfigError
  | KeyError
  | IndexError
  | TypeError
  | AttributeError
  | NameError
  | ValueError
  | OtherError string

text \<open>
  The JSON documents the Heketi client returns with \<open>json=True\<close>, with the fields the
  tests read: \<open>dev_free\<close> is \<open>device['storage']['free']\<close> (KB, an integer),
  \<open>vol_replica\<close> is \<open>['durability']['replicate']['replica']\<close>, \<open>vol_mount_device\<close> is
  \<open>['mount']['glusterfs']['device']\<close> and \<open>vol_backup_servers\<close> is
  \<open>['mount']['glusterfs']['options']['backup-volfile-servers']\<close>.
\<close>

record device =
  dev_id :: string
  dev_name :: string
  dev_state :: string
  dev_free :: int

record node_info =
  ni_id :: string
  ni_state :: string
  ni_devices :: "device list"

record brick =
  brick_device :: string
  brick_volume :: string

record volume =
  vol_name :: string
  vol_id :: string
  vol_bricks :: "brick list"
  vol_replica :: int
  vol_size :: int
  vol_mount_device :: string
  vol_backup_servers :: string

text \<open>
  A Python value. The language is dynamically typed, so one type covers the configuration
  and the results of all collaborators; \<open>VRsh\<close> is the triple \<open>(ret, out, err)\<close> of
  \<open>oc_rsh\<close>, \<open>VStrs\<close> a list of strings, \<open>VDict\<close> a dictionary in iteration order.
\<close>

datatype pyval =
    VNone
  | VBool bool
  | VInt int
  | VStr string
  | VStrs "string list"
  | VList "pyval list"
  | VDict "(string \<times> pyval) list"
  | VNode node_info
  | VDevice device
  | VVolume volume
  | VRsh int string string

text \<open>Python truthiness, as \<open>assertTrue\<close>, \<open>not\<close> and \<open>if\<close> apply it.\<close>

fun truthy :: "pyval \<Rightarrow> bool" where
  "truthy VNone = False"
| "truthy (VBool b) = b"
| "truthy (VInt n) = (n \<noteq> 0)"
| "truthy (VStr s) = (s \<noteq> [])"
| "truthy (VStrs xs) = (xs \<noteq> [])"
| "truthy (VList xs) = (xs \<noteq> [])"
| "truthy (VDict kvs) = (kvs \<noteq> [])"
| "truthy (VNode n) = True"
| "truthy (VDevice d) = True"
| "truthy (VVolume v) = True"
| "truthy (VRsh r out err) = True"

text \<open>The collaborators, by the names the sources call them under.\<close>

datatype fn =
    Hello_heketi
  | Switch_oc_project
  | Heketi_volume_delete
  | Heketi_blockvolume_delete
  | Heketi_node_list
  | Heketi_node_info
  | Heketi_node_disable
  | Heketi_node_enable
  | Heketi_device_disable
  | Heketi_device_enable
  | Heketi_device_info
  | Heketi_volume_create
  | Heketi_blockvolume_list
  | Base_setUpClass
  | Base_setUp
  | Datetime_now_strftime
  | Get_random_str
  | Get_openshift_version
  | Enable_pvc_resize
  | Create_storage_class
  | Create_and_wait_for_pvc
  | Oc_create_app_dc_with_io
  | Oc_delete
  | Scale_dc_pod_amount_and_wait
  | Get_pod_name_from_dc
  | Wait_for_pod_be_ready
  | Resize_pvc
  | Verify_pvc_size
  | Get_pv_name_from_pvc
  | Verify_pv_size
  | Wait_for_events
  | Wait_for_resource_absence
  | Oc_rsh
  | Oc_create_secret
  | Oc_create_sc
  | Oc_create_pvc
  | Oc_get_yaml
  | Oc_get_custom_resource
  | Get_block_hosting_volume_name
  | Get_gluster_vol_hosting_nodes
  | Restart_service_on_gluster_pod_or_node
  | Wait_for_service_status_on_gluster_pod_or_node
  | Verify_pvc_status_is_bound
  | Match_pvc_and_pv
  | Match_pv_and_heketi_block_volumes
  | Match_heketi_and_gluster_block_volumes_by_prefix
  | Get_volume_info
  | Get_volume_status

text \<open>A positional or a keyword argument of a call.\<close>

datatype arg = Arg pyval | Kw string pyval

type_synonym call = "fn \<times> arg list"

text \<open>
  The record of a run: every external call with its outcome, and every callback registered
  with \<open>addCleanup\<close>, in the order they happen. The external world is a state of an
  arbitrary type \<open>'w\<close>; a collaborator maps the world and its arguments to an outcome and
  the next world.
\<close>

datatype event = Called call "error + pyval" | Cleanup call

record 'w st =
  world :: 'w
  trace :: "event list"

type_synonym 'w extfun = "'w \<Rightarrow> call \<Rightarrow> (error + pyval) \<times> 'w"

type_synonym ('w, 'a) tm = "'w st \<Rightarrow> (error + 'a) \<times> 'w st"

definition ret :: "'a \<Rightarrow> ('w, 'a) tm" where
  "ret x = (\<lambda>s. (Inr x, s))"

definition raise :: "error \<Rightarrow> ('w, 'a) tm" where
  "raise e = (\<lambda>s. (Inl e, s))"

definition bnd :: "('w, 'a) tm \<Rightarrow> ('a \<Rightarrow> ('w, 'b) tm) \<Rightarrow> ('w, 'b) tm" where
  "bnd m f = (\<lambda>s. case m s of (Inl e, s') \<Rightarrow> (Inl e, s') | (Inr x, s') \<Rightarrow> f x s')"

definition lift :: "error + 'a \<Rightarrow> ('w, 'a) tm" where
  "lift r = (\<lambda>s. (r, s))"

definition extcall :: "'w extfun \<Rightarrow> fn \<Rightarrow> arg list \<Rightarrow> ('w, pyval) tm" where
  "extcall ext f as = (\<lambda>s. case ext (world s) (f, as) of
     (r, w') \<Rightarrow> (r, \<lparr>world = w', trace = trace s @ [Called (f, as) r]\<rparr>))"

definition addCleanup :: "fn \<Rightarrow> arg list \<Rightarrow> ('w, unit) tm" where
  "addCleanup f as = (\<lambda>s. (Inr (), \<lparr>world = world s, trace = trace s @ [Cleanup (f, as)]\<rparr>))"

definition assertTrue :: "bool \<Rightarrow> ('w, unit) tm" where
  "assertTrue b = (if b then ret () else raise AssertionError)"

text \<open>\<open>with self.assertRaises(ExecutionError): body\<close>\<close>

definition assertRaises_ExecutionError :: "('w, 'a) tm \<Rightarrow> ('w, unit) tm" where
  "assertRaises_ExecutionError m = (\<lambda>s. case m s of
       (Inl (ExecutionError msg), s') \<Rightarrow> (Inr (), s')
     | (Inl e, s') \<Rightarrow> (Inl e, s')
     | (Inr x, s') \<Rightarrow> (Inl AssertionError, s'))"

text \<open>\<open>try: body finally: fin\<close>: an exception of \<open>fin\<close> replaces the outcome of \<open>body\<close>.\<close>

definition try_finally :: "('w, 'a) tm \<Rightarrow> ('w, unit) tm \<Rightarrow> ('w, 'a) tm" where
  "try_finally body fin = (\<lambda>s. case body s of
       (r, s1) \<Rightarrow> (case fin s1 of (Inl e, s2) \<Rightarrow> (Inl e, s2) | (Inr u, s2) \<Rightarrow> (r, s2)))"

fun forM :: "'a list \<Rightarrow> ('a \<Rightarrow> ('w, unit) tm) \<Rightarrow> ('w, unit) tm" where
  "forM [] body = ret ()"
| "forM (x # xs) body = bnd (body x) (\<lambda>u. forM xs body)"

fun foldM :: "'a list \<Rightarrow> 'b \<Rightarrow> ('b \<Rightarrow> 'a \<Rightarrow> ('w, 'b) tm) \<Rightarrow> ('w, 'b) tm" where
  "foldM [] acc body = ret acc"
| "foldM (x # xs) acc body = bnd (body acc x) (\<lambda>acc'. foldM xs acc' body)"

text \<open>
  Uses of a value as a string, a list, a JSON document or a triple; a value of another
  shape cannot be used so, and the use raises.
\<close>

fun as_str :: "pyval \<Rightarrow> error + string" where
  "as_str (VStr s) = Inr s"
| "as_str v = Inl TypeError"

fun as_strs :: "pyval \<Rightarrow> error + string list" where
  "as_strs (VStrs xs) = Inr xs"
| "as_strs v = Inl TypeError"

fun as_node :: "pyval \<Rightarrow> error + node_info" where
  "as_node (VNode n) = Inr n"
| "as_node v = Inl TypeError"

fun as_device :: "pyval \<Rightarrow> error + device" where
  "as_device (VDevice d) = Inr d"
| "as_device v = Inl TypeError"

fun as_volume :: "pyval \<Rightarrow> error + volume" where
  "as_volume (VVolume v) = Inr v"
| "as_volume v = Inl TypeError"

fun as_rsh :: "pyval \<Rightarrow> error + int \<times> string \<times> string" where
  "as_rsh (VRsh r out err) = Inr (r, out, err)"
| "as_rsh v = Inl TypeError"

text \<open>\<open>xs[0]\<close>\<close>

fun index0 :: "'a list \<Rightarrow> error + 'a" where
  "index0 [] = Inl IndexError"
| "index0 (x # xs) = Inr x"

text \<open>\<open>d.get(k, default)\<close>, \<open>d[k]\<close>, \<open>d.keys()\<close>, \<open>k in d\<close> and \<open>d[k] = v\<close> on a dictionary.\<close>

fun dict_get :: "pyval \<Rightarrow> string \<Rightarrow> pyval \<Rightarrow> error + pyval" where
  "dict_get (VDict kvs) k d = Inr (case map_of kvs k of Some v \<Rightarrow> v | None \<Rightarrow> d)"
| "dict_get v k d = Inl AttributeError"

fun getitem :: "pyval \<Rightarrow> string \<Rightarrow> error + pyval" where
  "getitem (VDict kvs) k = (case map_of kvs k of Some v \<Rightarrow> Inr v | None \<Rightarrow> Inl KeyError)"
| "getitem v k = Inl TypeError"





subsection \<open>Python string operations\<close>

text \<open>\<open>s.startswith(p)\<close>, \<open>sub in s\<close>, \<open>sep.join(xs)\<close>, \<open>s.split(c)\<close> for a one-character
  separator, \<open>s.strip()\<close> and \<open>s.lower()\<close> (on ASCII).\<close>

fun starts_with :: "string \<Rightarrow> string \<Rightarrow> bool" where
  "starts_with s [] = True"
| "starts_with [] (p # ps) = False"
| "starts_with (c # cs) (p # ps) = (c = p \<and> starts_with cs ps)"

fun str_contains :: "string \<Rightarrow> string \<Rightarrow> bool" where
  "str_contains [] sub = (sub = [])"
| "str_contains (c # cs) sub = (starts_with (c # cs) sub \<or> str_contains cs sub)"

fun join :: "string \<Rightarrow> string list \<Rightarrow> string" where
  "join sep [] = []"
| "join sep [x] = x"
| "join sep (x # y # ys) = x @ sep @ join sep (y # ys)"

fun split_on :: "char \<Rightarrow> string \<Rightarrow> string list" where
  "split_on sep [] = [[]]"
| "split_on sep (c # cs) =
     (case split_on sep cs of
        [] \<Rightarrow> [[c]]
      | w # ws \<Rightarrow> if c = sep then [] # w # ws else (c # w) # ws)"

definition newline :: char where
  "newline = CHR 0x0A"

definition is_space :: "char \<Rightarrow> bool" where
  "is_space c = (c \<in> set [CHR '' '', CHR 0x09, CHR 0x0A, CHR 0x0B, CHR 0x0C, CHR 0x0D])"

definition strip :: "string \<Rightarrow> string" where
  "strip s = rev (dropWhile is_space (rev (dropWhile is_space s)))"

definition char_lower :: "char \<Rightarrow> char" where
  "char_lower c =
     (case map_of (zip ''ABCDEFGHIJKLMNOPQRSTUVWXYZ'' ''abcdefghijklmnopqrstuvwxyz'') c of
        Some l \<Rightarrow> l
      | None \<Rightarrow> c)"

definition lower :: "string \<Rightarrow> string" where
  "lower s = map char_lower s"

section \<open>cns-libs/cnslibs/common/heketi\_libs.py\<close>

text \<open>
  The class attributes \<open>HeketiBaseClass.setUpClass\<close> sets (prefixed \<open>hb_\<close>: the test classes
  of the other files inherit attributes of the same names from another base class).
\<close>

record heketi_base =
  hb_storage_project_name :: pyval
  hb_ocp_master_nodes :: "string list"
  hb_ocp_master_node :: string
  hb_heketi_dc_name :: pyval
  hb_heketi_service_name :: pyval
  hb_heketi_client_node :: pyval
  hb_heketi_server_url :: pyval
  hb_heketi_cli_user :: pyval
  hb_heketi_cli_key :: pyval
  hb_gluster_servers :: "string list"
  hb_gluster_servers_info :: pyval
  hb_glustotest_run_id :: pyval


text \<open>
  The argument of \<open>delete_volumes\<close>: one id, or a list, set or tuple of ids. A set is given
  by its elements in iteration order. \<open>normalize_ids\<close> is the \<open>isinstance\<close> test of both
  delete methods.
\<close>

datatype ids_arg = One string | PyList "string list" | PySet "string list" | PyTuple "string list"

fun normalize_ids :: "ids_arg \<Rightarrow> string list" where
  "normalize_ids (One v) = [v]"
| "normalize_ids (PyList xs) = xs"
| "normalize_ids (PySet xs) = xs"
| "normalize_ids (PyTuple xs) = xs"

text \<open>The body of the loop of \<open>delete_volumes\<close>, with \<open>errored_ids\<close> as accumulator.\<close>

definition delete_volumes_step ::
  "'w extfun \<Rightarrow> heketi_base \<Rightarrow> string list \<Rightarrow> string \<Rightarrow> ('w, string list) tm" where
  "delete_volumes_step ext self errored_ids volume_id =
     bnd (extcall ext Heketi_volume_delete
            [Arg (hb_heketi_client_node self), Arg (hb_heketi_server_url self),
             Arg (VStr volume_id)]) (\<lambda>r.
     bnd (lift (as_str r)) (\<lambda>out.
       let output_str = ''Volume '' @ volume_id @ '' deleted'' in
       if \<not> str_contains out output_str then ret (errored_ids @ [volume_id])
       else ret errored_ids))"

definition delete_volumes :: "'w extfun \<Rightarrow> heketi_base \<Rightarrow> ids_arg \<Rightarrow> ('w, unit) tm" where
  "delete_volumes ext self volume_ids =
     bnd (foldM (normalize_ids volume_ids) [] (delete_volumes_step ext self)) (\<lambda>errored_ids.
       if errored_ids \<noteq> [] then
         raise (ExecutionError (''Failed to delete following heketi volumes: ''
                  @ join [CHR '','', newline] errored_ids))
       else ret ())"



section \<open>tests/functional/common/provisioning/test\_pv\_resize.py\<close>

text \<open>
  The attributes the test classes of the remaining files inherit from their base class
  \<open>BaseClass\<close>, whose \<open>setUpClass\<close> fills them from the configuration. \<open>version\<close> is read by
  \<open>TestPvResizeClass.setUp\<close> and assigned nowhere in these files: it is \<open>None\<close> when the
  base class does not provide it.
\<close>

record fixture =
  ocp_master_node :: "pyval list"
  ocp_client :: "pyval list"
  heketi_client_node :: pyval
  heketi_server_url :: pyval
  heketi_cli_key :: pyval
  heketi_cli_user :: pyval
  storage_classes :: pyval
  gluster_servers :: "string list"
  g_config :: pyval
  version :: "pyval option"

text \<open>The class attributes \<open>TestPvResizeClass.setUpClass\<close> sets; \<open>skip_me\<close> is \<open>False\<close> when
  the attribute is not set (\<open>getattr(self, "skip_me", False)\<close>).\<close>

record pv_resize_cls =
  node :: pyval
  skip_me :: bool




text \<open>
  \<open>_pv_resize\<close>, lines 101 to 133: the loop over the devices of one node, the loop over the
  nodes, and the scan that returns the dictionary \<open>nodes\<close> (node id to free space, in
  insertion order; a key is only ever inserted when it is absent).
\<close>

definition pv_resize_device_step ::
  "'w extfun \<Rightarrow> fixture \<Rightarrow> string \<Rightarrow> int \<Rightarrow> (string \<times> int) list \<Rightarrow> device
     \<Rightarrow> ('w, (string \<times> int) list) tm" where
  "pv_resize_device_step ext self node_id min_free_space nodes device =
     (if lower (dev_state device) \<noteq> ''online'' then ret nodes
      else
        let free_space = dev_free device in
        if node_id \<in> set (map fst nodes) \<or> free_space < min_free_space then
          bnd (extcall ext Heketi_device_disable
                 [Arg (heketi_client_node self), Arg (heketi_server_url self),
                  Arg (VStr (dev_id device))]) (\<lambda>out.
          bnd (assertTrue (truthy out)) (\<lambda>u.
          bnd (addCleanup Heketi_device_enable
                 [Arg (heketi_client_node self), Arg (heketi_server_url self),
                  Arg (VStr (dev_id device))]) (\<lambda>u.
            ret nodes)))
        else ret (nodes @ [(node_id, free_space)]))"

definition pv_resize_node_step ::
  "'w extfun \<Rightarrow> fixture \<Rightarrow> int \<Rightarrow> (string \<times> int) list \<Rightarrow> string
     \<Rightarrow> ('w, (string \<times> int) list) tm" where
  "pv_resize_node_step ext self min_free_space nodes node_id =
     bnd (extcall ext Heketi_node_info
            [Arg (heketi_client_node self), Arg (heketi_server_url self),
             Arg (VStr node_id), Kw ''json'' (VBool True)]) (\<lambda>r.
     bnd (lift (as_node r)) (\<lambda>node_info.
       if lower (ni_state node_info) \<noteq> ''online'' \<or> ni_devices node_info = [] then ret nodes
       else
         bnd (if length nodes > 2 then
                bnd (extcall ext Heketi_node_disable
                       [Arg (heketi_client_node self), Arg (heketi_server_url self),
                        Arg (VStr node_id)]) (\<lambda>out.
                bnd (assertTrue (truthy out)) (\<lambda>u.
                addCleanup Heketi_node_enable
                  [Arg (heketi_client_node self), Arg (heketi_server_url self),
                   Arg (VStr node_id)]))
              else ret ()) (\<lambda>u.
         foldM (ni_devices node_info) nodes
           (pv_resize_device_step ext self node_id min_free_space))))"

definition min_free_space_gb :: int where
  "min_free_space_gb = 3"

definition pv_resize_nodes :: "'w extfun \<Rightarrow> fixture \<Rightarrow> ('w, (string \<times> int) list) tm" where
  "pv_resize_nodes ext self =
     bnd (extcall ext Heketi_node_list
            [Arg (heketi_client_node self), Arg (heketi_server_url self)]) (\<lambda>node_id_list.
     bnd (assertTrue (truthy node_id_list)) (\<lambda>u.
     bnd (lift (as_strs node_id_list)) (\<lambda>ids.
       foldM ids [] (pv_resize_node_step ext self (min_free_space_gb * 1024 ^ 2)))))"

text \<open>\<open>int(min(nodes.values()) / (1024**2))\<close>, the division being that of integers.\<close>

definition available_size_gb :: "(string \<times> int) list \<Rightarrow> int" where
  "available_size_gb nodes = min_list (map snd nodes) div 1024 ^ 2"

definition pv_resize :: "'w extfun \<Rightarrow> fixture \<Rightarrow> pv_resize_cls \<Rightarrow> bool \<Rightarrow> ('w, unit) tm" where
  "pv_resize ext self cls exceed_free_space =
     bnd (pv_resize_nodes ext self) (\<lambda>nodes.
     if length nodes < 3 then raise SkipTest
     else
     bnd (extcall ext Create_storage_class [Kw ''allow_volume_expansion'' (VBool True)]) (\<lambda>u.
     bnd (extcall ext Create_and_wait_for_pvc [Kw ''pvc_size'' (VInt 1)]) (\<lambda>pvc_name.
     bnd (extcall ext Oc_create_app_dc_with_io [Arg (node cls), Arg pvc_name]) (\<lambda>dc_name.
     bnd (addCleanup Oc_delete [Arg (node cls), Arg (VStr ''dc''), Arg dc_name]) (\<lambda>u.
     bnd (addCleanup Scale_dc_pod_amount_and_wait [Arg (node cls), Arg dc_name, Arg (VInt 0)])
       (\<lambda>u.
     bnd (extcall ext Get_pod_name_from_dc [Arg (node cls), Arg dc_name]) (\<lambda>pod_name.
     bnd (extcall ext Wait_for_pod_be_ready [Arg (node cls), Arg pod_name]) (\<lambda>u.
     if exceed_free_space then
       bnd (extcall ext Resize_pvc
              [Arg (node cls), Arg pvc_name, Arg (VInt (available_size_gb nodes))]) (\<lambda>u.
       bnd (extcall ext Wait_for_events
              [Arg (node cls), Kw ''obj_name'' pvc_name,
               Kw ''event_reason'' (VStr ''VolumeResizeFailed'')]) (\<lambda>u.
       bnd (extcall ext Wait_for_pod_be_ready [Arg (node cls), Arg pod_name]) (\<lambda>u.
       bnd (extcall ext Oc_rsh
              [Arg (node cls), Arg pod_name,
               Arg (VStr ''dd if=/dev/urandom of=/mnt/autotest bs=100K count=1'')]) (\<lambda>r.
       bnd (lift (as_rsh r)) (\<lambda>(ret_code, out, err).
         assertTrue (ret_code = 0))))))
     else
       let expand_size_gb = available_size_gb nodes - 1 in
       bnd (extcall ext Resize_pvc [Arg (node cls), Arg pvc_name, Arg (VInt expand_size_gb)])
         (\<lambda>u.
       bnd (extcall ext Verify_pvc_size [Arg (node cls), Arg pvc_name, Arg (VInt expand_size_gb)])
         (\<lambda>u.
       bnd (extcall ext Get_pv_name_from_pvc [Arg (node cls), Arg pvc_name]) (\<lambda>pv_name.
       bnd (extcall ext Verify_pv_size [Arg (node cls), Arg pv_name, Arg (VInt expand_size_gb)])
         (\<lambda>u.
       bnd (extcall ext Wait_for_events
              [Arg (node cls), Kw ''obj_name'' pvc_name,
               Kw ''event_reason'' (VStr ''VolumeResizeSuccessful'')]) (\<lambda>u.
       bnd (extcall ext Oc_delete [Arg (node cls), Arg (VStr ''pod''), Arg pod_name]) (\<lambda>u.
       bnd (extcall ext Wait_for_resource_absence
              [Arg (node cls), Arg (VStr ''pod''), Arg pod_name]) (\<lambda>u.
       bnd (extcall ext Get_pod_name_from_dc [Arg (node cls), Arg dc_name]) (\<lambda>pod_name.
       bnd (extcall ext Wait_for_pod_be_ready [Arg (node cls), Arg pod_name]) (\<lambda>u.
       bnd (extcall ext Oc_rsh
              [Arg (node cls), Arg pod_name,
               Arg (VStr ''dd if=/dev/urandom of=/mnt/autotest bs=1M count=1025'')]) (\<lambda>r.
       bnd (lift (as_rsh r)) (\<lambda>(ret_code, out, err).
         assertTrue (ret_code = 0))))))))))))
     ))))))))"

definition test_pv_resize_no_free_space ::
  "'w extfun \<Rightarrow> fixture \<Rightarrow> pv_resize_cls \<Rightarrow> ('w, unit) tm" where
  "test_pv_resize_no_free_space ext self cls = pv_resize ext self cls True"

definition test_pv_resize_by_exact_free_space ::
  "'w extfun \<Rightarrow> fixture \<Rightarrow> pv_resize_cls \<Rightarrow> ('w, unit) tm" where
  "test_pv_resize_by_exact_free_space ext self cls = pv_resize ext self cls False"

definition test_pv_resize_try_shrink_pv_size :: "'w extfun \<Rightarrow> fixture \<Rightarrow> ('w, unit) tm" where
  "test_pv_resize_try_shrink_pv_size ext self =
     bnd (lift (index0 (ocp_master_node self))) (\<lambda>node.
     let pv_size = 5 in
     bnd (extcall ext Create_storage_class [Kw ''allow_volume_expansion'' (VBool True)]) (\<lambda>u.
     bnd (extcall ext Create_and_wait_for_pvc [Kw ''pvc_size'' (VInt pv_size)]) (\<lambda>pvc_name.
     bnd (extcall ext Oc_create_app_dc_with_io [Arg node, Arg pvc_name]) (\<lambda>dc_name.
     bnd (addCleanup Oc_delete [Arg node, Arg (VStr ''dc''), Arg dc_name]) (\<lambda>u.
     bnd (addCleanup Scale_dc_pod_amount_and_wait [Arg node, Arg dc_name, Arg (VInt 0)]) (\<lambda>u.
     bnd (extcall ext Get_pod_name_from_dc [Arg node, Arg dc_name]) (\<lambda>pod_name.
     bnd (extcall ext Wait_for_pod_be_ready [Arg node, Arg pod_name]) (\<lambda>u.
     bnd (extcall ext Oc_rsh
            [Arg node, Arg pod_name,
             Arg (VStr ''dd if=/dev/urandom of=/mnt/file bs=100K count=3000'')]) (\<lambda>r.
     bnd (lift (as_rsh r)) (\<lambda>(ret_code, out, err).
     bnd (assertTrue (ret_code = 0)) (\<lambda>u.
     let pvc_resize = 2 in
     bnd (assertRaises_ExecutionError
            (extcall ext Resize_pvc [Arg node, Arg pvc_name, Arg (VInt pvc_resize)])) (\<lambda>u.
     bnd (extcall ext Verify_pvc_size [Arg node, Arg pvc_name, Arg (VInt pv_size)]) (\<lambda>u.
     bnd (extcall ext Get_pv_name_from_pvc [Arg node, Arg pvc_name]) (\<lambda>pv_name.
     bnd (extcall ext Verify_pv_size [Arg node, Arg pv_name, Arg (VInt pv_size)]) (\<lambda>u.
     bnd (extcall ext Oc_rsh
            [Arg node, Arg pod_name,
             Arg (VStr ''dd if=/dev/urandom of=/mnt/file_new bs=100K count=2000'')]) (\<lambda>r.
     bnd (lift (as_rsh r)) (\<lambda>(ret_code, out, err).
       assertTrue (ret_code = 0))))))))))))))))))"

section \<open>tests/functional/gluster\_stability/test\_restart\_gluster\_services.py\<close>


subsection \<open>The regular expression of the block volume list\<close>

text \<open>
  \<open>HEKETI_BLOCK_VOLUME_REGEX = "^Id:(.*).Cluster:(.*).Name:%s_(.*)$"\<close>, with the prefix of the
  run filled in. The prefix is \<open>autotest-\<close> and a random string of letters and digits, so its
  characters stand for themselves in the expression. The pieces of the expression are a
  literal character, \<open>.\<close> (any character but a newline) and the group \<open>(.*)\<close>, which is
  greedy: it takes the longest run of characters for which the rest of the expression
  still matches. The expression is anchored at both ends (\<open>re.search\<close> without flags: \<open>^\<close>
  is the start of the string, \<open>$\<close> its end or the position before a final newline).
  A match is the list of its groups.
\<close>

datatype rx = Lit char | AnyChar | GroupAny

fun greedy :: "(string \<Rightarrow> string list option) \<Rightarrow> string \<Rightarrow> string \<Rightarrow> string list option" where
  "greedy k acc [] = map_option ((#) (rev acc)) (k [])"
| "greedy k acc (c # cs) =
     (if c = newline then map_option ((#) (rev acc)) (k (c # cs))
      else (case greedy k (c # acc) cs of
              Some gs \<Rightarrow> Some gs
            | None \<Rightarrow> map_option ((#) (rev acc)) (k (c # cs))))"

primrec rx_match :: "rx list \<Rightarrow> string \<Rightarrow> string list option" where
  "rx_match [] s = (if s = [] \<or> s = [newline] then Some [] else None)"
| "rx_match (a # as) s =
     (case a of
        Lit c \<Rightarrow> (case s of [] \<Rightarrow> None | x # xs \<Rightarrow> if x = c then rx_match as xs else None)
      | AnyChar \<Rightarrow> (case s of [] \<Rightarrow> None | x # xs \<Rightarrow> if x \<noteq> newline then rx_match as xs else None)
      | GroupAny \<Rightarrow> greedy (rx_match as) [] s)"

definition HEKETI_BLOCK_VOLUME_REGEX :: "string \<Rightarrow> rx list" where
  "HEKETI_BLOCK_VOLUME_REGEX pfx =
     map Lit ''Id:'' @ [GroupAny, AnyChar] @ map Lit ''Cluster:'' @ [GroupAny, AnyChar]
     @ map Lit (''Name:'' @ pfx @ ''_'') @ [GroupAny]"




subsection \<open>\<open>GlusterStabilityTestSetup\<close>\<close>

text \<open>
  The attributes \<open>setUp\<close> assigns before it calls \<open>deploy_resouces\<close>, and all of them (prefixed
  \<open>gs_\<close>).
\<close>

record gs_conf =
  gs_oc_node :: pyval
  gs_prefix :: string
  gs_provisioner :: pyval
  gs_restsecretnamespace :: pyval
  gs_restuser :: pyval
  gs_resturl :: pyval
  gs_pvcsize :: int
  gs_pvccount :: nat

record gs_self = gs_conf +
  gs_sc_name :: pyval
  gs_pvc_name :: pyval
  gs_dc_name :: pyval
  gs_secret_name :: pyval
  gs_pod_name :: pyval
  gs_pvc_list :: "pyval list"

definition deploy_resouces ::
  "'w extfun \<Rightarrow> fixture \<Rightarrow> 'a gs_conf_scheme \<Rightarrow> ('w, pyval \<times> pyval \<times> pyval \<times> pyval) tm" where
  "deploy_resouces ext self gs =
     bnd (extcall ext Oc_create_secret
            [Arg (gs_oc_node gs), Kw ''namespace'' (gs_restsecretnamespace gs),
             Kw ''data_key'' (heketi_cli_key self), Kw ''secret_type'' (gs_provisioner gs)])
       (\<lambda>secretname.
     bnd (addCleanup Oc_delete [Arg (gs_oc_node gs), Arg (VStr ''secret''), Arg secretname]) (\<lambda>u.
     bnd (extcall ext Oc_create_sc
            [Arg (gs_oc_node gs), Kw ''sc_name_prefix'' (VStr (gs_prefix gs)),
             Kw ''provisioner'' (gs_provisioner gs), Kw ''resturl'' (gs_resturl gs),
             Kw ''restuser'' (gs_restuser gs),
             Kw ''restsecretnamespace'' (gs_restsecretnamespace gs),
             Kw ''restsecretname'' secretname, Kw ''volumenameprefix'' (VStr (gs_prefix gs))])
       (\<lambda>sc_name.
     bnd (addCleanup Oc_delete [Arg (gs_oc_node gs), Arg (VStr ''sc''), Arg sc_name]) (\<lambda>u.
     bnd (extcall ext Oc_create_pvc
            [Arg (gs_oc_node gs), Arg sc_name, Kw ''pvc_name_prefix'' (VStr (gs_prefix gs)),
             Kw ''pvc_size'' (VInt (gs_pvcsize gs))]) (\<lambda>pvc_name.
     bnd (addCleanup Wait_for_resource_absence
            [Arg (gs_oc_node gs), Arg (VStr ''pvc''), Arg pvc_name,
             Kw ''timeout'' (VInt 120), Kw ''interval'' (VInt 5)]) (\<lambda>u.
     bnd (addCleanup Oc_delete [Arg (gs_oc_node gs), Arg (VStr ''pvc''), Arg pvc_name]) (\<lambda>u.
     bnd (extcall ext Oc_create_app_dc_with_io
            [Arg (gs_oc_node gs), Arg pvc_name, Kw ''dc_name_prefix'' (VStr (gs_prefix gs))])
       (\<lambda>dc_name.
     bnd (addCleanup Oc_delete [Arg (gs_oc_node gs), Arg (VStr ''dc''), Arg dc_name]) (\<lambda>u.
     bnd (addCleanup Scale_dc_pod_amount_and_wait
            [Arg (gs_oc_node gs), Arg dc_name, Arg (VInt 0)]) (\<lambda>u.
       ret (sc_name, pvc_name, dc_name, secretname)))))))))))"

text \<open>The first loop of \<open>setUp\<close>, with \<open>pvc_list\<close> as accumulator, and \<open>setUp\<close>.\<close>

definition setUp_create_pvc ::
  "'w extfun \<Rightarrow> 'a gs_conf_scheme \<Rightarrow> pyval \<Rightarrow> pyval list \<Rightarrow> nat \<Rightarrow> ('w, pyval list) tm" where
  "setUp_create_pvc ext gs sc_name pvc_list pvc =
     bnd (extcall ext Oc_create_pvc
            [Arg (gs_oc_node gs), Arg sc_name, Kw ''pvc_name_prefix'' (VStr (gs_prefix gs)),
             Kw ''pvc_size'' (VInt (gs_pvcsize gs))]) (\<lambda>test_pvc_name.
     bnd (addCleanup Wait_for_resource_absence
            [Arg (gs_oc_node gs), Arg (VStr ''pvc''), Arg test_pvc_name,
             Kw ''timeout'' (VInt 600), Kw ''interval'' (VInt 10)]) (\<lambda>u.
       ret (pvc_list @ [test_pvc_name])))"

definition GlusterStabilityTestSetup_setUp :: "'w extfun \<Rightarrow> fixture \<Rightarrow> ('w, gs_self) tm" where
  "GlusterStabilityTestSetup_setUp ext self =
     bnd (lift (index0 (ocp_master_node self))) (\<lambda>oc_node.
     bnd (extcall ext Get_random_str []) (\<lambda>r.
     bnd (lift (as_str r)) (\<lambda>random_str.
     bnd (lift (dict_get (storage_classes self) ''block_storage_class'' VNone)) (\<lambda>dflt.
     bnd (lift (dict_get (storage_classes self) ''storage_class2'' dflt)) (\<lambda>storage_class.
     bnd (lift (getitem storage_class ''provisioner'')) (\<lambda>provisioner.
     bnd (lift (getitem storage_class ''restsecretnamespace'')) (\<lambda>restsecretnamespace.
     bnd (lift (getitem storage_class ''restuser'')) (\<lambda>restuser.
     bnd (lift (getitem storage_class ''resturl'')) (\<lambda>resturl.
     let gs = \<lparr>gs_oc_node = oc_node, gs_prefix = ''autotest-'' @ random_str,
                gs_provisioner = provisioner, gs_restsecretnamespace = restsecretnamespace,
                gs_restuser = restuser, gs_resturl = resturl,
                gs_pvcsize = 1, gs_pvccount = 10\<rparr> in
     bnd (deploy_resouces ext self gs) (\<lambda>(sc_name, pvc_name, dc_name, secret_name).
     bnd (extcall ext Oc_get_yaml [Arg oc_node, Arg (VStr ''sc''), Arg sc_name]) (\<lambda>u.
     bnd (extcall ext Get_pod_name_from_dc
            [Arg oc_node, Arg dc_name, Kw ''timeout'' (VInt 180), Kw ''wait_step'' (VInt 3)])
       (\<lambda>pod_name.
     bnd (extcall ext Wait_for_pod_be_ready
            [Arg oc_node, Arg pod_name, Kw ''timeout'' (VInt 180), Kw ''wait_step'' (VInt 3)])
       (\<lambda>u.
     bnd (extcall ext Verify_pvc_status_is_bound [Arg oc_node, Arg pvc_name]) (\<lambda>u.
     bnd (foldM [0..<gs_pvccount gs] [] (setUp_create_pvc ext gs sc_name)) (\<lambda>pvc_list.
     bnd (forM pvc_list (\<lambda>pvc_name'.
            addCleanup Oc_delete [Arg oc_node, Arg (VStr ''pvc''), Arg pvc_name'])) (\<lambda>u.
       ret (gs_conf.extend gs
              (gs_self.fields sc_name pvc_name dc_name secret_name pod_name pvc_list))
     ))))))))))))))))"



text \<open>The loop of \<open>get_heketi_block_volumes\<close> over the lines of the output: the ids and the
  names of the lines that match, in the order of the lines.\<close>

fun block_volumes_loop :: "rx list \<Rightarrow> string list \<Rightarrow> string list \<times> string list" where
  "block_volumes_loop re [] = ([], [])"
| "block_volumes_loop re (block_vol # rest) =
     (case rx_match re (strip block_vol) of
        Some [g1, g2, g3] \<Rightarrow>
          (strip g1 # fst (block_volumes_loop re rest), strip g3 # snd (block_volumes_loop re rest))
      | _ \<Rightarrow> block_volumes_loop re rest)"

definition get_heketi_block_volumes ::
  "'w extfun \<Rightarrow> fixture \<Rightarrow> gs_self \<Rightarrow> ('w, string list \<times> string list) tm" where
  "get_heketi_block_volumes ext self gs =
     bnd (extcall ext Heketi_blockvolume_list
            [Arg (heketi_client_node self), Arg (heketi_server_url self),
             Kw ''secret'' (heketi_cli_key self), Kw ''user'' (heketi_cli_user self)])
       (\<lambda>heketi_cmd_out.
     bnd (assertTrue (truthy heketi_cmd_out)) (\<lambda>u.
     bnd (lift (as_str heketi_cmd_out)) (\<lambda>out.
       let (heketi_block_volume_ids, heketi_block_volume_names) =
             block_volumes_loop (HEKETI_BLOCK_VOLUME_REGEX (gs_prefix gs)) (split_on newline out)
       in ret (sort heketi_block_volume_ids, sort heketi_block_volume_names))))"




section \<open>tests/functional/heketi/test\_disabling\_device.py\<close>

text \<open>
  The first loop of the test, over \<open>node_id_list[0:3]\<close>. Python keeps the loop variable
  after the loop, and the test reads \<open>node_id\<close> again later: the loop returns the list of
  the node infos and the last value of \<open>node_id\<close>, which is \<open>None\<close> while the variable is
  unbound.
\<close>

definition collect_node_info ::
  "'w extfun \<Rightarrow> fixture \<Rightarrow> pyval list \<times> string option \<Rightarrow> string
     \<Rightarrow> ('w, pyval list \<times> string option) tm" where
  "collect_node_info ext self acc node_id =
     bnd (extcall ext Heketi_node_info
            [Arg (heketi_client_node self), Arg (heketi_server_url self), Arg (VStr node_id),
             Kw ''json'' (VBool True)]) (\<lambda>node_info.
       ret (fst acc @ [node_info], Some node_id))"

text \<open>\<open>Disable 4th and other nodes\<close>: the body of the loop names \<open>node_id\<close>, not its own
  variable \<open>node\<close>.\<close>

definition disable_other_nodes ::
  "'w extfun \<Rightarrow> fixture \<Rightarrow> string option \<Rightarrow> string \<Rightarrow> ('w, unit) tm" where
  "disable_other_nodes ext self node_id nd =
     bnd (lift (case node_id of None \<Rightarrow> Inl NameError | Some n \<Rightarrow> Inr n)) (\<lambda>node_id.
     bnd (extcall ext Heketi_node_disable
            [Arg (heketi_client_node self), Arg (heketi_server_url self), Arg (VStr node_id)])
       (\<lambda>u.
       addCleanup Heketi_node_enable
         [Arg (heketi_client_node self), Arg (heketi_server_url self), Arg (VStr node_id)]))"

text \<open>\<open>Disable second and other devices on the first 3 nodes\<close>: the inner and the outer loop.\<close>

definition disable_device :: "'w extfun \<Rightarrow> fixture \<Rightarrow> device \<Rightarrow> ('w, unit) tm" where
  "disable_device ext self device =
     bnd (extcall ext Heketi_device_disable
            [Arg (heketi_client_node self), Arg (heketi_server_url self),
             Arg (VStr (dev_id device))]) (\<lambda>out.
     bnd (assertTrue (truthy out)) (\<lambda>u.
       addCleanup Heketi_device_enable
         [Arg (heketi_client_node self), Arg (heketi_server_url self),
          Arg (VStr (dev_id device))]))"

definition disable_other_devices :: "'w extfun \<Rightarrow> fixture \<Rightarrow> pyval \<Rightarrow> ('w, unit) tm" where
  "disable_other_devices ext self node_info =
     bnd (lift (as_node node_info)) (\<lambda>info.
     let devices = ni_devices info in
     bnd (assertTrue (devices \<noteq> [])) (\<lambda>u.
     bnd (lift (index0 devices)) (\<lambda>first.
     if lower (strip (dev_state first)) \<noteq> ''online'' then raise SkipTest
     else if length devices < 2 then ret ()
     else forM (tl devices) (disable_device ext self))))"

text \<open>\<open>out["bricks"][0]\<close> of a volume.\<close>

definition first_brick :: "pyval \<Rightarrow> error + brick" where
  "first_brick out =
     (case as_volume out of Inl e \<Rightarrow> Inl e | Inr v \<Rightarrow> index0 (vol_bricks v))"

text \<open>The inner \<open>try\<close> of the test: a volume must not be created while the device is
  disabled.\<close>

definition expect_no_volume :: "'w extfun \<Rightarrow> fixture \<Rightarrow> ('w, unit) tm" where
  "expect_no_volume ext self = (\<lambda>s.
     case extcall ext Heketi_volume_create
            [Arg (heketi_client_node self), Arg (heketi_server_url self), Arg (VInt 1),
             Kw ''json'' (VBool True)] s of
       (Inl AssertionError, s') \<Rightarrow> (Inr (), s')
     | (Inl e, s') \<Rightarrow> (Inl e, s')
     | (Inr out, s') \<Rightarrow>
         bnd (lift (first_brick out)) (\<lambda>b.
         bnd (addCleanup Heketi_volume_delete
                [Arg (heketi_client_node self), Arg (heketi_server_url self),
                 Arg (VStr (brick_volume b))]) (\<lambda>u.
           raise AssertionError)) s')"

definition test_create_volumes_enabling_and_disabling_heketi_devices ::
  "'w extfun \<Rightarrow> fixture \<Rightarrow> ('w, unit) tm" where
  "test_create_volumes_enabling_and_disabling_heketi_devices ext self =
     bnd (extcall ext Heketi_node_list
            [Arg (heketi_client_node self), Arg (heketi_server_url self)]) (\<lambda>r.
     bnd (lift (as_strs r)) (\<lambda>node_id_list.
     bnd (foldM (take 3 node_id_list) ([], None) (collect_node_info ext self))
       (\<lambda>(node_info_list, node_id).
     bnd (if length node_id_list > 3
          then forM (drop 3 node_id_list) (disable_other_nodes ext self node_id)
          else ret ()) (\<lambda>u.
     bnd (forM (take 3 node_info_list) (disable_other_devices ext self)) (\<lambda>u.
     bnd (extcall ext Heketi_volume_create
            [Arg (heketi_client_node self), Arg (heketi_server_url self), Arg (VInt 1),
             Kw ''json'' (VBool True)]) (\<lambda>out.
     bnd (assertTrue (truthy out)) (\<lambda>u.
     bnd (lift (first_brick out)) (\<lambda>b.
     let device_id = brick_device b in
     bnd (addCleanup Heketi_volume_delete
            [Arg (heketi_client_node self), Arg (heketi_server_url self),
             Arg (VStr (brick_volume b))]) (\<lambda>u.
     bnd (extcall ext Heketi_device_disable
            [Arg (heketi_client_node self), Arg (heketi_server_url self), Arg (VStr device_id)])
       (\<lambda>out.
     bnd (assertTrue (truthy out)) (\<lambda>u.
     bnd (try_finally
            (bnd (extcall ext Heketi_device_info
                    [Arg (heketi_client_node self), Arg (heketi_server_url self),
                     Arg (VStr device_id), Kw ''json'' (VBool True)]) (\<lambda>out.
             bnd (assertTrue (truthy out)) (\<lambda>u.
             bnd (lift (as_device out)) (\<lambda>d.
             bnd (assertTrue (strip (lower (dev_state d)) = ''offline'')) (\<lambda>u.
               expect_no_volume ext self)))))
            (bnd (extcall ext Heketi_device_enable
                    [Arg (heketi_client_node self), Arg (heketi_server_url self),
                     Arg (VStr device_id)]) (\<lambda>out.
               assertTrue (truthy out)))) (\<lambda>u.
     bnd (extcall ext Heketi_device_info
            [Arg (heketi_client_node self), Arg (heketi_server_url self), Arg (VStr device_id),
             Kw ''json'' (VBool True)]) (\<lambda>out.
     bnd (assertTrue (truthy out)) (\<lambda>u.
     bnd (lift (as_device out)) (\<lambda>d.
     bnd (assertTrue (dev_state d = ''online'')) (\<lambda>u.
     bnd (extcall ext Heketi_volume_create
            [Arg (heketi_client_node self), Arg (heketi_server_url self), Arg (VInt 1),
             Kw ''json'' (VBool True)]) (\<lambda>out.
     bnd (assertTrue (truthy out)) (\<lambda>u.
     bnd (lift (first_brick out)) (\<lambda>b.
     bnd (addCleanup Heketi_volume_delete
            [Arg (heketi_client_node self), Arg (heketi_server_url self),
             Arg (VStr (brick_volume b))]) (\<lambda>u.
     bnd (lift (as_volume out)) (\<lambda>v.
     bnd (extcall ext Get_volume_info
            [Arg (VStr ''auto_get_gluster_endpoint''), Kw ''volname'' (VStr (vol_name v))])
       (\<lambda>vol_info.
       assertTrue (truthy vol_info)))))))))))))))))))))))"

section \<open>tests/functional/heketi/test\_volume\_creation.py\<close>











section \<open>The cleanups of a test\<close>

text \<open>
  After a test method the runner calls the registered cleanups, last registered first, and
  goes on when one raises.
\<close>

fun registered_cleanups :: "event list \<Rightarrow> call list" where
  "registered_cleanups [] = []"
| "registered_cleanups (Cleanup c # es) = c # registered_cleanups es"
| "registered_cleanups (Called c r # es) = registered_cleanups es"



section \<open>Vocabulary of the properties\<close>






text \<open>
  The events of a passing run of \<open>test_pv_resize_try_shrink_pv_size\<close>, given the values the
  collaborators returned.
\<close>

definition shrink_trace ::
  "pyval \<Rightarrow> pyval \<Rightarrow> pyval \<Rightarrow> pyval \<Rightarrow> pyval \<Rightarrow> pyval \<Rightarrow> pyval \<Rightarrow> pyval \<Rightarrow> pyval
     \<Rightarrow> string \<Rightarrow> string \<Rightarrow> string \<Rightarrow> string \<Rightarrow> string \<Rightarrow> event list" where
  "shrink_trace nd pvc_name dc_name pod_name pv_name u0 u1 u2 u3 out1 err1 msg out2 err2 =
     [Called (Create_storage_class, [Kw ''allow_volume_expansion'' (VBool True)]) (Inr u0),
      Called (Create_and_wait_for_pvc, [Kw ''pvc_size'' (VInt 5)]) (Inr pvc_name),
      Called (Oc_create_app_dc_with_io, [Arg nd, Arg pvc_name]) (Inr dc_name),
      Cleanup (Oc_delete, [Arg nd, Arg (VStr ''dc''), Arg dc_name]),
      Cleanup (Scale_dc_pod_amount_and_wait, [Arg nd, Arg dc_name, Arg (VInt 0)]),
      Called (Get_pod_name_from_dc, [Arg nd, Arg dc_name]) (Inr pod_name),
      Called (Wait_for_pod_be_ready, [Arg nd, Arg pod_name]) (Inr u1),
      Called (Oc_rsh, [Arg nd, Arg pod_name,
                Arg (VStr ''dd if=/dev/urandom of=/mnt/file bs=100K count=3000'')])
        (Inr (VRsh 0 out1 err1)),
      Called (Resize_pvc, [Arg nd, Arg pvc_name, Arg (VInt 2)]) (Inl (ExecutionError msg)),
      Called (Verify_pvc_size, [Arg nd, Arg pvc_name, Arg (VInt 5)]) (Inr u2),
      Called (Get_pv_name_from_pvc, [Arg nd, Arg pvc_name]) (Inr pv_name),
      Called (Verify_pv_size, [Arg nd, Arg pv_name, Arg (VInt 5)]) (Inr u3),
      Called (Oc_rsh, [Arg nd, Arg pod_name,
                Arg (VStr ''dd if=/dev/urandom of=/mnt/file_new bs=100K count=2000'')])
        (Inr (VRsh 0 out2 err2))]"

text \<open>
  An example cluster: resizing a claim fails, commands in pods succeed, the installed
  version is 3.7 and every other call returns a name; a fixture; the start of a run.
\<close>

definition ext_shrink :: "unit extfun" where
  "ext_shrink w c =
     (if fst c = Resize_pvc then Inl (ExecutionError ''field can not be less than previous value'')
      else if fst c = Oc_rsh then Inr (VRsh 0 [] [])
      else if fst c = Get_openshift_version then Inr (VStr ''3.7'')
      else Inr (VStr ''name''), w)"

definition fx0 :: fixture where
  "fx0 = \<lparr>ocp_master_node = [VStr ''master1''], ocp_client = [VStr ''client1''],
     heketi_client_node = VStr ''client1'', heketi_server_url = VStr ''http://heketi:8080'',
     heketi_cli_key = VStr ''key'', heketi_cli_user = VStr ''admin'',
     storage_classes = VDict [], gluster_servers = [''g1'', ''g2'', ''g3''],
     g_config = VDict [], version = Some (VStr ''3.7'')\<rparr>"

definition s0 :: "unit st" where
  "s0 = \<lparr>world = (), trace = []\<rparr>"








text \<open>
  A cluster of four nodes, each reported online with two online devices of 5000000 KB and
  4000000 KB free; all other calls succeed.
\<close>

definition info5 :: node_info where
  "info5 = \<lparr>ni_id = ''n'', ni_state = ''Online'',
     ni_devices = [\<lparr>dev_id = ''d1'', dev_name = ''/dev/sdb'', dev_state = ''online'', dev_free = 5000000\<rparr>,
                   \<lparr>dev_id = ''d2'', dev_name = ''/dev/sdc'', dev_state = ''online'', dev_free = 4000000\<rparr>]\<rparr>"








text \<open>
  The call that lists the block volumes, and the groups of the lines of its output that
  match the expression of the run, each line stripped first.
\<close>

definition blockvolume_list_call :: "fixture \<Rightarrow> call" where
  "blockvolume_list_call self = (Heketi_blockvolume_list,
     [Arg (heketi_client_node self), Arg (heketi_server_url self),
      Kw ''secret'' (heketi_cli_key self), Kw ''user'' (heketi_cli_user self)])"

definition matching_lines :: "string \<Rightarrow> string \<Rightarrow> string list list" where
  "matching_lines pfx out =
     List.map_filter (\<lambda>line. rx_match (HEKETI_BLOCK_VOLUME_REGEX pfx) (strip line))
       (split_on newline out)"

text \<open>
  A test object of \<open>GlusterStabilityTestSetup\<close> after \<open>setUp\<close>; a listing with two volumes of
  the run and one of another; a cluster with three hosting nodes that answers every other
  call with \<open>True\<close>.
\<close>

definition gs0 :: gs_self where
  "gs0 = \<lparr>gs_oc_node = VStr ''master1'', gs_prefix = ''autotest-x1'',
     gs_provisioner = VStr ''gluster.org/glusterblock'', gs_restsecretnamespace = VStr ''glusterfs'',
     gs_restuser = VStr ''admin'', gs_resturl = VStr ''http://heketi:8080'',
     gs_pvcsize = 1, gs_pvccount = 10,
     gs_sc_name = VStr ''sc1'', gs_pvc_name = VStr ''pvc0'', gs_dc_name = VStr ''dc1'',
     gs_secret_name = VStr ''secret1'', gs_pod_name = VStr ''pod1'',
     gs_pvc_list = [VStr ''pvc1'', VStr ''pvc2'']\<rparr>"

definition list_out :: string where
  "list_out = ''Id:b2 Cluster:c1 Name:autotest-x1_vol2'' @ [newline]
     @ ''Id:zz Cluster:c1 Name:other_vol'' @ [newline]
     @ ''  Id:a1 Cluster:c1 Name:autotest-x1_vol1 '' @ [newline]"

definition ext_restart :: "unit extfun" where
  "ext_restart w c =
     (if fst c = Oc_get_custom_resource then Inr (VStrs [''pv1''])
      else if fst c = Get_gluster_vol_hosting_nodes then Inr (VStrs [''g1'', ''g2'', ''g3''])
      else if fst c = Heketi_blockvolume_list then Inr (VStr list_out)
      else Inr (VBool True), w)"




text \<open>
  The calls that disable and enable a node; the calls a run made and (above) the cleanups
  it registered, in order.
\<close>

definition node_disable_call :: "fixture \<Rightarrow> string \<Rightarrow> call" where
  "node_disable_call self node_id = (Heketi_node_disable,
     [Arg (heketi_client_node self), Arg (heketi_server_url self), Arg (VStr node_id)])"

definition node_enable_call :: "fixture \<Rightarrow> string \<Rightarrow> call" where
  "node_enable_call self node_id = (Heketi_node_enable,
     [Arg (heketi_client_node self), Arg (heketi_server_url self), Arg (VStr node_id)])"

fun called_calls :: "event list \<Rightarrow> call list" where
  "called_calls [] = []"
| "called_calls (Called c r # es) = c # called_calls es"
| "called_calls (Cleanup c # es) = called_calls es"

text \<open>
  A cluster of four nodes whose state is whether device \<open>d1\<close> is disabled: every volume has
  its first brick on \<open>d1\<close>, and no volume can be created while \<open>d1\<close> is disabled. The run of
  \<open>test_create_volumes_enabling_and_disabling_heketi_devices\<close> on it is \<open>dd_trace\<close>.
\<close>

definition vol_dd :: volume where
  "vol_dd = \<lparr>vol_name = ''vol_1'', vol_id = ''v1'',
     vol_bricks = [\<lparr>brick_device = ''d1'', brick_volume = ''v1''\<rparr>],
     vol_replica = 3, vol_size = 1, vol_mount_device = ''10.0.0.1:vol_1'',
     vol_backup_servers = ''10.0.0.2,10.0.0.3''\<rparr>"

definition ext_dd :: "bool extfun" where
  "ext_dd w c =
     (if fst c = Heketi_node_list then (Inr (VStrs [''n1'', ''n2'', ''n3'', ''n4'']), w)
      else if fst c = Heketi_node_info then (Inr (VNode info5), w)
      else if fst c = Heketi_device_disable
        then (Inr (VBool True), w \<or> last (snd c) = Arg (VStr ''d1''))
      else if fst c = Heketi_device_enable
        then (Inr (VBool True), w \<and> last (snd c) \<noteq> Arg (VStr ''d1''))
      else if fst c = Heketi_device_info
        then (Inr (VDevice \<lparr>dev_id = ''d1'', dev_name = ''/dev/sdb'',
                dev_state = (if w then ''offline'' else ''online''), dev_free = 5000000\<rparr>), w)
      else if fst c = Heketi_volume_create
        then (if w then Inl AssertionError else Inr (VVolume vol_dd), w)
      else (Inr (VBool True), w))"

definition s_dd :: "bool st" where
  "s_dd = \<lparr>world = False, trace = []\<rparr>"



definition dd_trace :: "event list" where
  "dd_trace =
     [Called (Heketi_node_list, [Arg (VStr ''client1''), Arg (VStr ''http://heketi:8080'')])
        (Inr (VStrs [''n1'', ''n2'', ''n3'', ''n4''])),
      Called (Heketi_node_info, [Arg (VStr ''client1''), Arg (VStr ''http://heketi:8080''),
        Arg (VStr ''n1''), Kw ''json'' (VBool True)]) (Inr (VNode info5)),
      Called (Heketi_node_info, [Arg (VStr ''client1''), Arg (VStr ''http://heketi:8080''),
        Arg (VStr ''n2''), Kw ''json'' (VBool True)]) (Inr (VNode info5)),
      Called (Heketi_node_info, [Arg (VStr ''client1''), Arg (VStr ''http://heketi:8080''),
        Arg (VStr ''n3''), Kw ''json'' (VBool True)]) (Inr (VNode info5)),
      Called (Heketi_node_disable, [Arg (VStr ''client1''), Arg (VStr ''http://heketi:8080''),
        Arg (VStr ''n3'')]) (Inr (VBool True)),
      Cleanup (Heketi_node_enable, [Arg (VStr ''client1''), Arg (VStr ''http://heketi:8080''),
        Arg (VStr ''n3'')]),
      Called (Heketi_device_disable, [Arg (VStr ''client1''), Arg (VStr
        ''http://heketi:8080''), Arg (VStr ''d2'')]) (Inr (VBool True)),
      Cleanup (Heketi_device_enable, [Arg (VStr ''client1''), Arg (VStr
        ''http://heketi:8080''), Arg (VStr ''d2'')]),
      Called (Heketi_device_disable, [Arg (VStr ''client1''), Arg (VStr
        ''http://heketi:8080''), Arg (VStr ''d2'')]) (Inr (VBool True)),
      Cleanup (Heketi_device_enable, [Arg (VStr ''client1''), Arg (VStr
        ''http://heketi:8080''), Arg (VStr ''d2'')]),
      Called (Heketi_device_disable, [Arg (VStr ''client1''), Arg (VStr
        ''http://heketi:8080''), Arg (VStr ''d2'')]) (Inr (VBool True)),
      Cleanup (Heketi_device_enable, [Arg (VStr ''client1''), Arg (VStr
        ''http://heketi:8080''), Arg (VStr ''d2'')]),
      Called (Heketi_volume_create, [Arg (VStr ''client1''), Arg (VStr
        ''http://heketi:8080''), Arg (VInt 1), Kw ''json'' (VBool True)]) (Inr (VVolume
        vol_dd)),
      Cleanup (Heketi_volume_delete, [Arg (VStr ''client1''), Arg (VStr
        ''http://heketi:8080''), Arg (VStr ''v1'')]),
      Called (Heketi_device_disable, [Arg (VStr ''client1''), Arg (VStr
        ''http://heketi:8080''), Arg (VStr ''d1'')]) (Inr (VBool True)),
      Called (Heketi_device_info, [Arg (VStr ''client1''), Arg (VStr ''http://heketi:8080''),
        Arg (VStr ''d1''), Kw ''json'' (VBool True)]) (Inr (VDevice \<lparr>dev_id = ''d1'',
        dev_name = ''/dev/sdb'', dev_state = ''offline'', dev_free = 5000000\<rparr>)),
      Called (Heketi_volume_create, [Arg (VStr ''client1''), Arg (VStr
        ''http://heketi:8080''), Arg (VInt 1), Kw ''json'' (VBool True)]) (Inl AssertionError),
      Called (Heketi_device_enable, [Arg (VStr ''client1''), Arg (VStr
        ''http://heketi:8080''), Arg (VStr ''d1'')]) (Inr (VBool True)),
      Called (Heketi_device_info, [Arg (VStr ''client1''), Arg (VStr ''http://heketi:8080''),
        Arg (VStr ''d1''), Kw ''json'' (VBool True)]) (Inr (VDevice \<lparr>dev_id = ''d1'',
        dev_name = ''/dev/sdb'', dev_state = ''online'', dev_free = 5000000\<rparr>)),
      Called (Heketi_volume_create, [Arg (VStr ''client1''), Arg (VStr
        ''http://heketi:8080''), Arg (VInt 1), Kw ''json'' (VBool True)]) (Inr (VVolume
        vol_dd)),
      Cleanup (Heketi_volume_delete, [Arg (VStr ''client1''), Arg (VStr
        ''http://heketi:8080''), Arg (VStr ''v1'')]),
      Called (Get_volume_info, [Arg (VStr ''auto_get_gluster_endpoint''), Kw ''volname'' (VStr
        ''vol_1'')]) (Inr (VBool True))]"

text \<open>
  The cleanup a call asks for, given what it returned: the deletion of the secret, storage
  class, claim or deployment config an \<open>oc_create\<close> call returned; the deletion of the volume
  \<open>heketi_volume_create\<close> returned; the enabling of the node or device a disabling call
  with a true result disabled. \<open>cleanup_follows c es\<close>: the cleanup \<open>c\<close> is registered in \<open>es\<close>
  before any further call. \<open>cleanups_registered\<close>: every call of a run is followed so by
  the cleanup it asks for.
\<close>

definition kind_created :: "fn \<Rightarrow> string option" where
  "kind_created f =
     (if f = Oc_create_secret then Some ''secret''
      else if f = Oc_create_sc then Some ''sc''
      else if f = Oc_create_pvc then Some ''pvc''
      else if f = Oc_create_app_dc_with_io then Some ''dc''
      else None)"

definition needed_cleanup :: "call \<Rightarrow> pyval \<Rightarrow> call option" where
  "needed_cleanup c r =
     (case kind_created (fst c) of
        Some kind \<Rightarrow>
          (case snd c of [] \<Rightarrow> None | nd # as \<Rightarrow> Some (Oc_delete, [nd, Arg (VStr kind), Arg r]))
      | None \<Rightarrow>
          if fst c = Heketi_volume_create then
            (case as_volume r of
               Inl e \<Rightarrow> None
             | Inr v \<Rightarrow> Some (Heketi_volume_delete, take 2 (snd c) @ [Arg (VStr (vol_id v))]))
          else if fst c = Heketi_node_disable \<and> truthy r then Some (Heketi_node_enable, snd c)
          else if fst c = Heketi_device_disable \<and> truthy r then Some (Heketi_device_enable, snd c)
          else None)"

fun cleanup_follows :: "call \<Rightarrow> event list \<Rightarrow> bool" where
  "cleanup_follows c [] = False"
| "cleanup_follows c (Cleanup c' # es) = (c' = c \<or> cleanup_follows c es)"
| "cleanup_follows c (Called c' r # es) = False"

fun cleanups_registered :: "event list \<Rightarrow> bool" where
  "cleanups_registered [] = True"
| "cleanups_registered (Called c (Inr r) # es) =
     ((case needed_cleanup c r of None \<Rightarrow> True | Some cl \<Rightarrow> cleanup_follows cl es)
      \<and> cleanups_registered es)"
| "cleanups_registered (Called c (Inl e) # es) = cleanups_registered es"
| "cleanups_registered (Cleanup c # es) = cleanups_registered es"

text \<open>
  A computation registers its cleanups when the events of each of its runs do; it
  registers the cleanup \<open>cl\<close> first when, besides, \<open>cl\<close> is registered before its first call.
\<close>

definition reg :: "('w, 'a) tm \<Rightarrow> bool" where
  "reg m = (\<forall>s r s'. m s = (r, s') \<longrightarrow>
              (\<exists>t. trace s' = trace s @ t \<and> cleanups_registered t))"

definition follows :: "call \<Rightarrow> ('w, 'a) tm \<Rightarrow> bool" where
  "follows cl m = (\<forall>s r s'. m s = (r, s') \<longrightarrow>
              (\<exists>t. trace s' = trace s @ t \<and> cleanups_registered t \<and> cleanup_follows cl t))"

section \<open>Properties\<close>

subsection \<open>Sequencing\<close>

lemma bnd_Inr_iff:
  "bnd m f s = (Inr y, s') \<longleftrightarrow> (\<exists>x s1. m s = (Inr x, s1) \<and> f x s1 = (Inr y, s'))"
  by (auto simp: bnd_def split: prod.splits sum.splits)

lemma bnd_of_Inr: "m s = (Inr x, s1) \<Longrightarrow> bnd m f s = f x s1"
  by (simp add: bnd_def)

lemma bnd_of_Inl: "m s = (Inl e, s1) \<Longrightarrow> bnd m f s = (Inl e, s1)"
  by (simp add: bnd_def)






text \<open>
  C9: on a single id, which is not a list, set or tuple, \<open>delete_volumes\<close> is
  \<open>delete_volumes\<close> on the one-element list of that id: the same calls, the same outcome.
\<close>

theorem delete_volumes_single_id:
  "delete_volumes ext self (One v) = delete_volumes ext self (PyList [v])"
  by (simp add: delete_volumes_def)

lemma extcall_Inr_iff:
  "extcall ext f as s = (Inr v, s') \<longleftrightarrow>
     (\<exists>w'. ext (world s) (f, as) = (Inr v, w')
        \<and> s' = \<lparr>world = w', trace = trace s @ [Called (f, as) (Inr v)]\<rparr>)"
  by (auto simp: extcall_def split: prod.splits)

lemma lift_Inr_iff: "lift r s = (Inr v, s') \<longleftrightarrow> r = Inr v \<and> s' = s"
  by (auto simp: lift_def)

lemma ret_Inr_iff: "ret x s = (Inr v, s') \<longleftrightarrow> v = x \<and> s' = s"
  by (auto simp: ret_def)

lemma raise_Inr_iff: "raise e s = (Inr v, s') \<longleftrightarrow> False"
  by (simp add: raise_def)

lemma addCleanup_Inr_iff:
  "addCleanup f as s = (Inr v, s') \<longleftrightarrow>
     s' = \<lparr>world = world s, trace = trace s @ [Cleanup (f, as)]\<rparr>"
  by (auto simp: addCleanup_def)

lemma assertTrue_Inr_iff: "assertTrue b s = (Inr v, s') \<longleftrightarrow> b \<and> s' = s"
  by (auto simp: assertTrue_def ret_def raise_def)

lemma assertRaises_Inr_iff:
  "assertRaises_ExecutionError (extcall ext f as) s = (Inr v, s') \<longleftrightarrow>
     (\<exists>msg w'. ext (world s) (f, as) = (Inl (ExecutionError msg), w')
        \<and> s' = \<lparr>world = w', trace = trace s @ [Called (f, as) (Inl (ExecutionError msg))]\<rparr>)"
  by (auto simp: assertRaises_ExecutionError_def extcall_def split: prod.splits sum.splits error.splits)

lemma as_rsh_Inr_iff: "as_rsh r = Inr p \<longleftrightarrow> r = VRsh (fst p) (fst (snd p)) (snd (snd p))"
  by (cases r; cases p) auto

lemma index0_Inr_iff: "index0 xs = Inr x \<longleftrightarrow> (\<exists>ys. xs = x # ys)"
  by (cases xs) auto

lemmas run_iffs = bnd_Inr_iff extcall_Inr_iff lift_Inr_iff ret_Inr_iff raise_Inr_iff
  addCleanup_Inr_iff assertTrue_Inr_iff assertRaises_Inr_iff as_rsh_Inr_iff index0_Inr_iff

text \<open>
  C3: \<open>test_pv_resize_try_shrink_pv_size\<close> passes only if the claim was created with size 5,
  the request to resize it to 2 raised \<open>ExecutionError\<close>, the checks of the sizes of the
  claim and of the volume against 5 then returned, and the write after them returned 0.
\<close>

theorem shrink_passes_only_if:
  assumes "test_pv_resize_try_shrink_pv_size ext self s = (Inr (), s')"
  shows "\<exists>node rest pvc_name dc_name pod_name pv_name u0 u1 u2 u3 out1 err1 msg out2 err2.
           ocp_master_node self = node # rest
         \<and> trace s' = trace s @ shrink_trace node pvc_name dc_name pod_name pv_name
                                   u0 u1 u2 u3 out1 err1 msg out2 err2"
  using assms
  unfolding test_pv_resize_try_shrink_pv_size_def Let_def shrink_trace_def
  by (auto simp: run_iffs split: prod.splits)

theorem shrink_passes_only_if_witness:
  "\<exists>s'. test_pv_resize_try_shrink_pv_size ext_shrink fx0 s0 = (Inr (), s')
     \<and> (\<exists>node rest pvc_name dc_name pod_name pv_name u0 u1 u2 u3 out1 err1 msg out2 err2.
           ocp_master_node fx0 = node # rest
         \<and> trace s' = trace s0 @ shrink_trace node pvc_name dc_name pod_name pv_name
                                   u0 u1 u2 u3 out1 err1 msg out2 err2)"
proof -
  obtain r s' where run: "test_pv_resize_try_shrink_pv_size ext_shrink fx0 s0 = (r, s')"
    by (cases "test_pv_resize_try_shrink_pv_size ext_shrink fx0 s0")
  have "fst (test_pv_resize_try_shrink_pv_size ext_shrink fx0 s0) = Inr ()"
    by (simp add: test_pv_resize_try_shrink_pv_size_def ext_shrink_def fx0_def s0_def bnd_def
        extcall_def lift_def addCleanup_def assertTrue_def ret_def raise_def
        assertRaises_ExecutionError_def)
  with run have ok: "test_pv_resize_try_shrink_pv_size ext_shrink fx0 s0 = (Inr (), s')"
    by simp
  from shrink_passes_only_if [OF ok] ok show ?thesis by blast
qed



subsection \<open>The scan of the nodes in \<open>_pv_resize\<close>\<close>


























subsection \<open>How failures surface\<close>










subsection \<open>The block volumes Heketi lists\<close>

lemma greedy_Some:
  "greedy k acc s = Some gs \<Longrightarrow> \<exists>g gs' rest. gs = g # gs' \<and> k rest = Some gs'"
  by (induction s arbitrary: acc) (auto split: if_splits option.splits)

lemma rx_match_length:
  "rx_match rs s = Some gs \<Longrightarrow> length gs = length (filter (\<lambda>r. r = GroupAny) rs)"
proof (induction rs arbitrary: s gs)
  case Nil
  then show ?case by (auto split: if_splits)
next
  case (Cons a rs)
  show ?case
  proof (cases a)
    case (Lit c)
    with Cons show ?thesis by (auto split: list.splits if_splits)
  next
    case AnyChar
    with Cons show ?thesis by (auto split: list.splits if_splits)
  next
    case GroupAny
    with Cons.prems have "greedy (rx_match rs) [] s = Some gs" by simp
    from greedy_Some [OF this] Cons.IH GroupAny show ?thesis by auto
  qed
qed

lemma regex_three_groups:
  "rx_match (HEKETI_BLOCK_VOLUME_REGEX pfx) s = Some gs \<Longrightarrow> length gs = 3"
  by (drule rx_match_length) (simp add: HEKETI_BLOCK_VOLUME_REGEX_def filter_empty_conv o_def)


lemma block_volumes_loop_eq:
  "block_volumes_loop (HEKETI_BLOCK_VOLUME_REGEX pfx) ls =
     (map (\<lambda>m. strip (m ! 0))
        (List.map_filter (\<lambda>line. rx_match (HEKETI_BLOCK_VOLUME_REGEX pfx) (strip line)) ls),
      map (\<lambda>m. strip (m ! 2))
        (List.map_filter (\<lambda>line. rx_match (HEKETI_BLOCK_VOLUME_REGEX pfx) (strip line)) ls))"
proof (induction ls)
  case Nil
  show ?case by (simp add: map_filter_simps)
next
  case (Cons l ls)
  show ?case
  proof (cases "rx_match (HEKETI_BLOCK_VOLUME_REGEX pfx) (strip l)")
    case None
    with Cons show ?thesis by (simp add: map_filter_simps)
  next
    case (Some gs)
    from regex_three_groups [OF Some] obtain g1 g2 g3 where "gs = [g1, g2, g3]"
      by (auto simp: length_Suc_conv numeral_3_eq_3)
    with Some Cons show ?thesis by (simp add: map_filter_simps)
  qed
qed

text \<open>
  C10: when the listing is a non-empty string, \<open>get_heketi_block_volumes\<close> returns two lists of
  the same length, both sorted, holding exactly the stripped first and third groups of the
  lines that match the expression (each match has three groups); the other lines add
  nothing.
\<close>

theorem block_volumes_sorted_groups:
  assumes call: "ext (world s) (blockvolume_list_call self) = (Inr (VStr out), w')"
    and nonempty: "out \<noteq> []"
  shows "\<exists>ids names. get_heketi_block_volumes ext self gs s =
           (Inr (ids, names),
            \<lparr>world = w', trace = trace s @ [Called (blockvolume_list_call self) (Inr (VStr out))]\<rparr>)
         \<and> length ids = length names \<and> sorted ids \<and> sorted names
         \<and> mset ids = mset (map (\<lambda>m. strip (m ! 0)) (matching_lines (gs_prefix gs) out))
         \<and> mset names = mset (map (\<lambda>m. strip (m ! 2)) (matching_lines (gs_prefix gs) out))
         \<and> (\<forall>m \<in> set (matching_lines (gs_prefix gs) out). length m = 3)"
proof -
  let ?ms = "matching_lines (gs_prefix gs) out"
  have run: "get_heketi_block_volumes ext self gs s =
      (Inr (sort (map (\<lambda>m. strip (m ! 0)) ?ms), sort (map (\<lambda>m. strip (m ! 2)) ?ms)),
       \<lparr>world = w', trace = trace s @ [Called (blockvolume_list_call self) (Inr (VStr out))]\<rparr>)"
    using call nonempty
    by (simp add: get_heketi_block_volumes_def blockvolume_list_call_def matching_lines_def
        block_volumes_loop_eq bnd_def extcall_def assertTrue_def lift_def ret_def)
  have three: "\<forall>m \<in> set ?ms. length m = 3"
    by (auto simp: matching_lines_def map_filter_def dest: regex_three_groups)
  from run three show ?thesis by simp
qed

theorem block_volumes_sorted_groups_witness:
  "ext_restart (world s0) (blockvolume_list_call fx0) = (Inr (VStr list_out), ())
   \<and> list_out \<noteq> []
   \<and> matching_lines (gs_prefix gs0) list_out = [[''b2'', ''c1'', ''vol2''], [''a1'', ''c1'', ''vol1'']]
   \<and> fst (get_heketi_block_volumes ext_restart fx0 gs0 s0) = Inr ([''a1'', ''b2''], [''vol1'', ''vol2''])"
proof -
  have call: "ext_restart (world s0) (blockvolume_list_call fx0) = (Inr (VStr list_out), ())"
    by (simp add: ext_restart_def blockvolume_list_call_def)
  have nonempty: "list_out \<noteq> []"
    by (simp add: list_out_def)
  have lines: "matching_lines (gs_prefix gs0) list_out =
      [[''b2'', ''c1'', ''vol2''], [''a1'', ''c1'', ''vol1'']]"
    by (simp add: matching_lines_def gs0_def list_out_def HEKETI_BLOCK_VOLUME_REGEX_def
        newline_def strip_def is_space_def map_filter_def)
  from block_volumes_sorted_groups [where ext = ext_restart and s = s0 and gs = gs0,
      OF call nonempty] obtain ids names where
    run: "fst (get_heketi_block_volumes ext_restart fx0 gs0 s0) = Inr (ids, names)" and
    len: "length ids = length names" and srt: "sorted ids" "sorted names" and
    ms: "mset ids = mset (map (\<lambda>m. strip (m ! 0)) (matching_lines (gs_prefix gs0) list_out))"
        "mset names = mset (map (\<lambda>m. strip (m ! 2)) (matching_lines (gs_prefix gs0) list_out))"
    by auto
  have "mset ids = mset [''a1'', ''b2'']"
    using ms(1) by (simp add: lines strip_def is_space_def add.commute)
  moreover have "sorted [''a1'', ''b2'']" by simp
  ultimately have ids: "ids = [''a1'', ''b2'']"
    using srt(1) by (metis sorted_sort_id properties_for_sort)
  have "mset names = mset [''vol1'', ''vol2'']"
    using ms(2) by (simp add: lines strip_def is_space_def add.commute)
  moreover have "sorted [''vol1'', ''vol2'']" by simp
  ultimately have names: "names = [''vol1'', ''vol2'']"
    using srt(2) by (metis sorted_sort_id properties_for_sort)
  from call nonempty lines run ids names show ?thesis by simp
qed

subsection \<open>Services after a restart\<close>









subsection \<open>The nodes and devices a test disables\<close>

lemma run_dd:
  "test_create_volumes_enabling_and_disabling_heketi_devices ext_dd fx0 s_dd =
     (Inr (), \<lparr>world = False, trace = dd_trace\<rparr>)"
  by (simp add: test_create_volumes_enabling_and_disabling_heketi_devices_def
      collect_node_info_def disable_other_nodes_def disable_other_devices_def disable_device_def
      expect_no_volume_def first_brick_def try_finally_def ext_dd_def fx0_def s_dd_def info5_def
      vol_dd_def dd_trace_def lower_def char_lower_def strip_def is_space_def Let_def
      bnd_def extcall_def lift_def addCleanup_def assertTrue_def ret_def raise_def)

text \<open>
  C4 fails on the code: with four nodes, the test disables the third node and registers the
  cleanup for the third node; the fourth node is neither disabled nor named in a cleanup.
\<close>

theorem fourth_node_not_disabled:
  "fst (test_create_volumes_enabling_and_disabling_heketi_devices ext_dd fx0 s_dd) = Inr ()
   \<and> node_disable_call fx0 ''n3'' \<in> set (called_calls
        (trace (snd (test_create_volumes_enabling_and_disabling_heketi_devices ext_dd fx0 s_dd))))
   \<and> node_enable_call fx0 ''n3'' \<in> set (registered_cleanups
        (trace (snd (test_create_volumes_enabling_and_disabling_heketi_devices ext_dd fx0 s_dd))))
   \<and> node_disable_call fx0 ''n4'' \<notin> set (called_calls
        (trace (snd (test_create_volumes_enabling_and_disabling_heketi_devices ext_dd fx0 s_dd))))
   \<and> node_enable_call fx0 ''n4'' \<notin> set (registered_cleanups
        (trace (snd (test_create_volumes_enabling_and_disabling_heketi_devices ext_dd fx0 s_dd))))"
  unfolding run_dd
  by (simp add: dd_trace_def node_disable_call_def node_enable_call_def fx0_def)


subsection \<open>Cleanups are registered at once\<close>

lemma cleanup_follows_append: "cleanup_follows c t \<Longrightarrow> cleanup_follows c (t @ u)"
  by (induction c t rule: cleanup_follows.induct) auto

lemma cleanups_registered_append:
  "cleanups_registered t \<Longrightarrow> cleanups_registered u \<Longrightarrow> cleanups_registered (t @ u)"
  by (induction t rule: cleanups_registered.induct)
     (auto split: option.splits intro: cleanup_follows_append)

lemma reg_ret: "reg (ret x)"
  by (simp add: reg_def ret_def)

lemma reg_raise: "reg (raise e)"
  by (simp add: reg_def raise_def)

lemma reg_lift: "reg (lift r)"
  by (simp add: reg_def lift_def)

lemma reg_assertTrue: "reg (assertTrue b)"
  by (simp add: assertTrue_def reg_ret reg_raise)

lemma reg_addCleanup: "reg (addCleanup f as)"
  by (simp add: reg_def addCleanup_def)

lemma reg_bnd:
  assumes "reg m" and "\<And>x. reg (f x)"
  shows "reg (bnd m f)"
  unfolding reg_def
proof (intro allI impI)
  fix s r s'
  assume run: "bnd m f s = (r, s')"
  obtain r1 s1 where m: "m s = (r1, s1)" by (cases "m s")
  from assms(1) [unfolded reg_def, rule_format, OF m]
  obtain t1 where t1: "trace s1 = trace s @ t1" "cleanups_registered t1"
    by blast
  show "\<exists>t. trace s' = trace s @ t \<and> cleanups_registered t"
  proof (cases r1)
    case (Inl e)
    with run m t1 show ?thesis by (auto simp: bnd_def)
  next
    case (Inr x)
    with run m have "f x s1 = (r, s')" by (simp add: bnd_def)
    from assms(2) [unfolded reg_def, rule_format, OF this]
    obtain t2 where "trace s' = trace s1 @ t2" "cleanups_registered t2"
      by blast
    with t1 show ?thesis
      by (intro exI [of _ "t1 @ t2"]) (simp add: cleanups_registered_append)
  qed
qed

lemma extcall_trace:
  "extcall ext f as s = (r, s') \<Longrightarrow> trace s' = trace s @ [Called (f, as) r]"
  by (auto simp: extcall_def split: prod.splits)


lemma reg_call_then:
  assumes "\<And>r. case needed_cleanup (f, as) r of None \<Rightarrow> reg (k r) | Some cl \<Rightarrow> follows cl (k r)"
  shows "reg (bnd (extcall ext f as) k)"
  unfolding reg_def
proof (intro allI impI)
  fix s r s'
  assume run: "bnd (extcall ext f as) k s = (r, s')"
  obtain r1 s1 where call: "extcall ext f as s = (r1, s1)" by (cases "extcall ext f as s")
  then have t1: "trace s1 = trace s @ [Called (f, as) r1]" by (rule extcall_trace)
  show "\<exists>t. trace s' = trace s @ t \<and> cleanups_registered t"
  proof (cases r1)
    case (Inl e)
    with run call t1 show ?thesis by (auto simp: bnd_def)
  next
    case (Inr v)
    with run call have rest: "k v s1 = (r, s')" by (simp add: bnd_def)
    show ?thesis
    proof (cases "needed_cleanup (f, as) v")
      case None
      with assms [of v] have "reg (k v)" by simp
      from this [unfolded reg_def, rule_format, OF rest]
      obtain t2 where "trace s' = trace s1 @ t2" "cleanups_registered t2" by blast
      with t1 Inr None show ?thesis
        by (intro exI [of _ "Called (f, as) (Inr v) # t2"]) simp
    next
      case (Some cl)
      with assms [of v] have "follows cl (k v)" by simp
      from this [unfolded follows_def, rule_format, OF rest]
      obtain t2 where "trace s' = trace s1 @ t2" "cleanups_registered t2" "cleanup_follows cl t2"
        by blast
      with t1 Inr Some show ?thesis
        by (intro exI [of _ "Called (f, as) (Inr v) # t2"]) simp
    qed
  qed
qed







lemma reg_if: "reg a \<Longrightarrow> reg b \<Longrightarrow> reg (if c then a else b)"
  by simp

lemma reg_case_prod: "(\<And>a b. reg (f a b)) \<Longrightarrow> reg (case_prod f p)"
  by (cases p) simp

lemma reg_foldM: "(\<And>a x. reg (body a x)) \<Longrightarrow> reg (foldM xs acc body)"
  by (induction xs arbitrary: acc) (auto intro: reg_ret reg_bnd)

lemma reg_forM: "(\<And>x. reg (body x)) \<Longrightarrow> reg (forM xs body)"
  by (induction xs) (auto intro: reg_ret reg_bnd)

lemmas reg_intros = reg_ret reg_raise reg_lift reg_assertTrue reg_addCleanup reg_if
  reg_case_prod reg_foldM reg_forM reg_call_then reg_bnd

















end
